theory Spec2Isabelle
  imports Main "HOL-Library.Word" "HOL-Library.Sublist"
begin

section \<open>The wrapper translation unit \<^verbatim>\<open>clay_termbox_impl.c\<close>\<close>

text \<open>
  The file assembles the Clay layout engine, the termbox2 terminal library, the stb image
  libraries and Clay's termbox2 renderer into one translation unit, and adds two functions:
  \<^verbatim>\<open>Clay_Termbox_Initialize_With_MeasureText\<close> and \<^verbatim>\<open>Clay_Termbox_SetMeasureText\<close>.
  Every function they call is defined in an included file, so the two functions are
  embedded as functions of the vendored code they are linked against.
\<close>

subsection \<open>C values\<close>

text \<open>A C \<^verbatim>\<open>int\<close> is 32 bits wide; a pointer is null or points to something.\<close>

type_synonym c_int = "32 word"

datatype 'a ptr = NULL | Ptr 'a

text \<open>
  A C function returning \<^verbatim>\<open>void\<close>: it takes the process state and leaves a new one. It
  either returns (\<open>Inr ()\<close>: there is no value) or fails with an error of the library that
  raised it (\<open>Inl e\<close>), leaving the state it had reached.
\<close>

type_synonym ('e, 's) void_fn = "'s \<Rightarrow> ('e + unit) \<times> 's"

subsection \<open>The vendored code the wrapper calls\<close>

text \<open>
  The four external symbols of lines 21 to 30. None is defined in this file, so each
  is a parameter: \<open>'bm\<close>, \<open>'bc\<close> and \<open>'im\<close> are the renderer's \<^verbatim>\<open>enum border_mode\<close>,
  \<^verbatim>\<open>enum border_chars\<close> and \<^verbatim>\<open>enum image_mode\<close>, \<open>'f\<close> is the type of a text
  measurement function, \<open>'u\<close> what a user-data pointer points to, \<open>'e\<close> the libraries'
  errors and \<open>'s\<close> the process state. \<open>Clay_Initialize\<close> is the layout engine's own
  initialisation, with its arguments already applied.
\<close>

record ('bm, 'bc, 'im, 'f, 'u, 'e, 's) vendored =
  Clay_Termbox_Initialize :: "c_int \<Rightarrow> 'bm \<Rightarrow> 'bc \<Rightarrow> 'im \<Rightarrow> bool \<Rightarrow> ('e, 's) void_fn"
  Clay_Initialize :: "('e, 's) void_fn"
  Clay_SetMeasureTextFunction :: "'f ptr \<Rightarrow> 'u ptr \<Rightarrow> ('e, 's) void_fn"
  Clay_Termbox_MeasureText :: 'f

subsection \<open>The two wrapper functions\<close>

text \<open>
  \<^verbatim>\<open>void Clay_Termbox_Initialize_With_MeasureText(int color_mode, enum border_mode border_mode,
        enum border_chars border_chars, enum image_mode image_mode, bool transparency) {
      Clay_Termbox_Initialize(color_mode, border_mode, border_chars, image_mode, transparency);
  }\<close>
\<close>

definition Clay_Termbox_Initialize_With_MeasureText ::
  "('bm, 'bc, 'im, 'f, 'u, 'e, 's) vendored \<Rightarrow>
     c_int \<Rightarrow> 'bm \<Rightarrow> 'bc \<Rightarrow> 'im \<Rightarrow> bool \<Rightarrow> ('e, 's) void_fn" where
  "Clay_Termbox_Initialize_With_MeasureText V color_mode border_mode border_chars image_mode
       transparency =
     Clay_Termbox_Initialize V color_mode border_mode border_chars image_mode transparency"

text \<open>
  \<^verbatim>\<open>void Clay_Termbox_SetMeasureText(void) {
      Clay_SetMeasureTextFunction(Clay_Termbox_MeasureText, NULL);
  }\<close>
\<close>

definition Clay_Termbox_SetMeasureText ::
  "('bm, 'bc, 'im, 'f, 'u, 'e, 's) vendored \<Rightarrow> ('e, 's) void_fn" where
  "Clay_Termbox_SetMeasureText V =
     Clay_SetMeasureTextFunction V (Ptr (Clay_Termbox_MeasureText V)) NULL"

subsection \<open>Observing the calls\<close>

text \<open>
  A call of a vendored function, with its arguments. \<open>logged V\<close> is the vendored code
  \<open>V\<close> with a call log beside its state: each function appends its own call to the log
  and otherwise does what it does in \<open>V\<close>. Running a wrapper over \<open>logged V\<close> shows
  which calls it makes, how often and with which arguments.
\<close>

datatype ('bm, 'bc, 'im, 'f, 'u) call =
    Call_Clay_Termbox_Initialize c_int 'bm 'bc 'im bool
  | Call_Clay_Initialize
  | Call_Clay_SetMeasureTextFunction "'f ptr" "'u ptr"

definition logged ::
  "('bm, 'bc, 'im, 'f, 'u, 'e, 's) vendored \<Rightarrow>
     ('bm, 'bc, 'im, 'f, 'u, 'e, 's \<times> ('bm, 'bc, 'im, 'f, 'u) call list) vendored" where
  "logged V =
     \<lparr> Clay_Termbox_Initialize = (\<lambda>cm bm bc im tr (s, cs).
         case Clay_Termbox_Initialize V cm bm bc im tr s of
           (r, s') \<Rightarrow> (r, (s', cs @ [Call_Clay_Termbox_Initialize cm bm bc im tr]))),
       Clay_Initialize = (\<lambda>(s, cs).
         case Clay_Initialize V s of
           (r, s') \<Rightarrow> (r, (s', cs @ [Call_Clay_Initialize]))),
       Clay_SetMeasureTextFunction = (\<lambda>f u (s, cs).
         case Clay_SetMeasureTextFunction V f u s of
           (r, s') \<Rightarrow> (r, (s', cs @ [Call_Clay_SetMeasureTextFunction f u]))),
       Clay_Termbox_MeasureText = Clay_Termbox_MeasureText V \<rparr>"

text \<open>
  The calls of a log that register a measurement function, by the user-data pointer
  each one passes.
\<close>

fun user_contexts :: "('bm, 'bc, 'im, 'f, 'u) call list \<Rightarrow> 'u ptr list" where
  "user_contexts [] = []"
| "user_contexts (Call_Clay_SetMeasureTextFunction f u # cs) = u # user_contexts cs"
| "user_contexts (c # cs) = user_contexts cs"

subsection \<open>Sequencing and the documented startup\<close>

text \<open>
  Two C statements in sequence: the second runs in the state the first leaves, and
  does not run when the first fails.
\<close>

definition and_then :: "('e, 's) void_fn \<Rightarrow> ('e, 's) void_fn \<Rightarrow> ('e, 's) void_fn" where
  "and_then p q s = (case p s of (Inl e, s') \<Rightarrow> (Inl e, s') | (Inr u, s') \<Rightarrow> q s')"

text \<open>
  Modelled from the spec: the hosting application that starts the program is not in the
  sources. The spec's ordering contract is: terminal-backend init, then layout-engine
  init (an external call, not in the wrapper), then measurement-callback registration.
\<close>

definition startup ::
  "('bm, 'bc, 'im, 'f, 'u, 'e, 's) vendored \<Rightarrow>
     c_int \<Rightarrow> 'bm \<Rightarrow> 'bc \<Rightarrow> 'im \<Rightarrow> bool \<Rightarrow> ('e, 's) void_fn" where
  "startup V color_mode border_mode border_chars image_mode transparency =
     and_then
       (Clay_Termbox_Initialize_With_MeasureText V color_mode border_mode border_chars
          image_mode transparency)
       (and_then (Clay_Initialize V) (Clay_Termbox_SetMeasureText V))"

subsection \<open>The state of the vendored libraries\<close>

text \<open>
  Modelled from the spec: the libraries that hold the state are not in the sources. The
  spec names the state they manage (a terminal buffer and a layout context) and the
  single process-wide measurement-callback pointer of the layout engine, registered
  with a context through \<^verbatim>\<open>SetMeasureTextFunction(fn, context)\<close>.
\<close>

record ('t, 'l, 'f, 'u) world =
  terminal :: 't
  layout_context :: 'l
  measure_callback :: "'f ptr"
  measure_context :: "'u ptr"

text \<open>
  Modelled from the spec: \<^verbatim>\<open>Clay_Termbox_Initialize\<close>, \<^verbatim>\<open>Clay_Initialize\<close> and
  \<^verbatim>\<open>Clay_SetMeasureTextFunction\<close> are not in the sources. Terminal-backend init is a
  transition of the terminal backend's state (\<open>tb_init\<close>, whatever the backend does with
  the five arguments, failure included); the layout engine's own initialisation is left
  open (\<open>clay_init\<close>); the registration point writes the callback pointer and its
  context into the layout engine's state.
\<close>

definition spec_vendored ::
  "(c_int \<Rightarrow> 'bm \<Rightarrow> 'bc \<Rightarrow> 'im \<Rightarrow> bool \<Rightarrow> ('e, 't) void_fn) \<Rightarrow>
   ('e, ('t, 'l, 'f, 'u) world) void_fn \<Rightarrow> 'f \<Rightarrow>
     ('bm, 'bc, 'im, 'f, 'u, 'e, ('t, 'l, 'f, 'u) world) vendored" where
  "spec_vendored tb_init clay_init measure_fn =
     \<lparr> Clay_Termbox_Initialize = (\<lambda>cm bm bc im tr w.
         case tb_init cm bm bc im tr (terminal w) of
           (r, t') \<Rightarrow> (r, w\<lparr>terminal := t'\<rparr>)),
       Clay_Initialize = clay_init,
       Clay_SetMeasureTextFunction = (\<lambda>f u w.
         (Inr (), w\<lparr>measure_callback := f, measure_context := u\<rparr>)),
       Clay_Termbox_MeasureText = measure_fn \<rparr>"

text \<open>
  Modelled from the spec: the layout engine's use of the callback is not in the sources.
  The measurement callback is the function the layout engine calls for the extents of a
  text run; it is called with the context it was registered with. With no callback
  registered there is nothing to call (\<open>None\<close>).
\<close>

definition measure_text :: "('t, 'l, 'x \<Rightarrow> 'u ptr \<Rightarrow> 'd, 'u) world \<Rightarrow> 'x \<Rightarrow> 'd option" where
  "measure_text w txt =
     (case measure_callback w of NULL \<Rightarrow> None | Ptr f \<Rightarrow> Some (f txt (measure_context w)))"

subsection \<open>The preprocessor directives of the file\<close>

text \<open>
  Lines 4 to 18 of the file, in order: a \<^verbatim>\<open>#define\<close> with its replacement text (empty
  for a bare flag; the comment after \<^verbatim>\<open>32\<close> on line 8, "Required for truecolor
  support", is not part of it), or an \<^verbatim>\<open>#include\<close> with the path as written.
\<close>

datatype directive = Define string string | Include string

definition translation_unit :: "directive list" where
  "translation_unit =
     [ Define ''CLAY_IMPLEMENTATION'' [],
       Include ''clay.h'',
       Define ''TB_IMPL'' [],
       Define ''TB_OPT_ATTR_W'' ''32'',
       Include ''../termbox2/termbox2.h'',
       Define ''STB_IMAGE_IMPLEMENTATION'' [],
       Include ''../stb/stb_image.h'',
       Define ''STB_IMAGE_RESIZE_IMPLEMENTATION'' [],
       Include ''../stb/stb_image_resize2.h'',
       Include ''clay_renderer_termbox2.c'' ]"

text \<open>
  The macros in force at each inclusion, in the order of the inclusions. A
  \<^verbatim>\<open>#define\<close> sets its macro; an included file sees the macros defined so far and may
  change them (\<open>hdr\<close>: the included files are not in the sources).
\<close>

type_synonym macros = "string \<rightharpoonup> string"

fun inclusions ::
  "(string \<Rightarrow> macros \<Rightarrow> macros) \<Rightarrow> macros \<Rightarrow> directive list \<Rightarrow> (string \<times> macros) list" where
  "inclusions hdr m [] = []"
| "inclusions hdr m (Define n v # ds) = inclusions hdr (m(n \<mapsto> v)) ds"
| "inclusions hdr m (Include h # ds) = (h, m) # inclusions hdr (hdr h m) ds"

subsection \<open>Concrete vendored code, for instances of the theorems\<close>

text \<open>
  A backend whose state is a counter: terminal init fails while the counter is zero,
  and so does the registration.
\<close>

definition counter_vendored :: "(nat, nat, nat, nat, nat, string, nat) vendored" where
  "counter_vendored =
     \<lparr> Clay_Termbox_Initialize = (\<lambda>cm bm bc im tr s.
         if s = 0 then (Inl ''terminal'', s) else (Inr (), Suc s)),
       Clay_Initialize = (\<lambda>s. (Inr (), Suc s)),
       Clay_SetMeasureTextFunction = (\<lambda>f u s.
         if s = 0 then (Inl ''layout'', s) else (Inr (), Suc s)),
       Clay_Termbox_MeasureText = 7 \<rparr>"

text \<open>
  An instance of the libraries' state: the terminal counts its initialisations, the
  layout context says whether the layout engine is initialised, and the measurement
  function gives the length of the text.
\<close>

definition ready_vendored ::
  "(nat, nat, nat, string \<Rightarrow> nat ptr \<Rightarrow> nat, nat, string,
    (nat, bool, string \<Rightarrow> nat ptr \<Rightarrow> nat, nat) world) vendored" where
  "ready_vendored =
     spec_vendored (\<lambda>cm bm bc im tr t. (Inr (), Suc t))
       (\<lambda>w. (Inr (), w\<lparr>layout_context := True\<rparr>))
       (\<lambda>txt u. length txt)"

definition fresh_world :: "(nat, bool, string \<Rightarrow> nat ptr \<Rightarrow> nat, nat) world" where
  "fresh_world =
     \<lparr> terminal = 0, layout_context = False, measure_callback = NULL, measure_context = NULL \<rparr>"

section \<open>The calls the wrappers make\<close>

text \<open>
  Claim C1. For every colour mode, border mode, border character set, image mode and
  transparency flag, \<^verbatim>\<open>Clay_Termbox_Initialize_With_MeasureText\<close> makes exactly one call of
  a vendored function: \<^verbatim>\<open>Clay_Termbox_Initialize\<close> with the same five arguments in the
  same order. Its outcome and the state it leaves are those of that call, and it returns
  no value (\<open>Inr ()\<close> when it returns).
\<close>

theorem Initialize_With_MeasureText_one_call:
  "Clay_Termbox_Initialize_With_MeasureText (logged V) cm bm bc im tr (s, cs) =
     (fst (Clay_Termbox_Initialize V cm bm bc im tr s),
      snd (Clay_Termbox_Initialize V cm bm bc im tr s),
      cs @ [Call_Clay_Termbox_Initialize cm bm bc im tr])"
  by (simp add: Clay_Termbox_Initialize_With_MeasureText_def logged_def split: prod.split)

text \<open>
  Claim C2. \<^verbatim>\<open>Clay_Termbox_SetMeasureText\<close> takes no argument and returns no value. It
  registers the terminal backend's \<^verbatim>\<open>Clay_Termbox_MeasureText\<close> through
  \<^verbatim>\<open>Clay_SetMeasureTextFunction\<close>: it makes exactly one call of a vendored function,
  \<^verbatim>\<open>Clay_SetMeasureTextFunction(Clay_Termbox_MeasureText, NULL)\<close>, and its outcome and
  the state it leaves are those of that call.
\<close>

theorem SetMeasureText_one_call:
  "Clay_Termbox_SetMeasureText (logged V) (s, cs) =
     (fst (Clay_SetMeasureTextFunction V (Ptr (Clay_Termbox_MeasureText V)) NULL s),
      snd (Clay_SetMeasureTextFunction V (Ptr (Clay_Termbox_MeasureText V)) NULL s),
      cs @ [Call_Clay_SetMeasureTextFunction (Ptr (Clay_Termbox_MeasureText V)) NULL])"
  by (simp add: Clay_Termbox_SetMeasureText_def logged_def split: prod.split)

section \<open>Failures of the vendored code\<close>

text \<open>
  Claim C3. Neither wrapper validates its arguments, branches on them or intercepts an
  error. Whatever the arguments and the state, when the vendored call
  (\<^verbatim>\<open>Clay_Termbox_Initialize\<close> or \<^verbatim>\<open>Clay_SetMeasureTextFunction\<close>) fails with \<open>e\<close> in
  state \<open>s'\<close>, the wrapper fails with the same \<open>e\<close> in the same \<open>s'\<close>: the error is not
  translated and the wrapper has changed nothing itself. The call was made (it is the
  one entry added to the log), so no check of the wrapper stood before it.
\<close>

theorem wrappers_propagate_failure:
  "(Clay_Termbox_Initialize V cm bm bc im tr s = (Inl e, s') \<longrightarrow>
      Clay_Termbox_Initialize_With_MeasureText V cm bm bc im tr s = (Inl e, s') \<and>
      Clay_Termbox_Initialize_With_MeasureText (logged V) cm bm bc im tr (s, cs) =
        (Inl e, s', cs @ [Call_Clay_Termbox_Initialize cm bm bc im tr])) \<and>
   (Clay_SetMeasureTextFunction V (Ptr (Clay_Termbox_MeasureText V)) NULL s = (Inl e, s') \<longrightarrow>
      Clay_Termbox_SetMeasureText V s = (Inl e, s') \<and>
      Clay_Termbox_SetMeasureText (logged V) (s, cs) =
        (Inl e, s',
         cs @ [Call_Clay_SetMeasureTextFunction (Ptr (Clay_Termbox_MeasureText V)) NULL]))"
  by (simp add: Clay_Termbox_Initialize_With_MeasureText_def Clay_Termbox_SetMeasureText_def
      logged_def)

text \<open>
  An instance: over \<open>counter_vendored\<close> in state 0 both vendored calls fail, and both
  wrappers fail with the same error and state.
\<close>

theorem wrappers_propagate_failure_witness:
  "Clay_Termbox_Initialize counter_vendored 1 2 3 4 True 0 = (Inl ''terminal'', 0) \<and>
   Clay_Termbox_Initialize_With_MeasureText counter_vendored 1 2 3 4 True 0 =
     (Inl ''terminal'', 0) \<and>
   Clay_Termbox_Initialize_With_MeasureText (logged counter_vendored) 1 2 3 4 True (0, []) =
     (Inl ''terminal'', 0, [Call_Clay_Termbox_Initialize 1 2 3 4 True]) \<and>
   Clay_SetMeasureTextFunction counter_vendored (Ptr 7) NULL 0 = (Inl ''layout'', 0) \<and>
   Clay_Termbox_SetMeasureText counter_vendored 0 = (Inl ''layout'', 0) \<and>
   Clay_Termbox_SetMeasureText (logged counter_vendored) (0, []) =
     (Inl ''layout'', 0, [Call_Clay_SetMeasureTextFunction (Ptr 7) NULL])"
  using wrappers_propagate_failure [of counter_vendored 1 2 3 4 True 0 "''terminal''" 0 "[]"]
    wrappers_propagate_failure [of counter_vendored 1 2 3 4 True 0 "''layout''" 0 "[]"]
  by (simp add: counter_vendored_def)

section \<open>What the wrappers change\<close>

text \<open>
  Claim C4. On the libraries' state as the spec describes it,
  \<^verbatim>\<open>Clay_Termbox_SetMeasureText\<close> returns, and the state it leaves differs from the one
  it found in the layout engine's measurement callback and its context only: one write
  of the pair. The terminal and the rest of the layout context are unchanged. The file
  has no state of its own: over any vendored code, the state the wrapper leaves is the
  state its one vendored call leaves.
\<close>

theorem SetMeasureText_frame:
  "Clay_Termbox_SetMeasureText (spec_vendored tb_init clay_init mt) w =
     (Inr (), w\<lparr>measure_callback := Ptr mt, measure_context := NULL\<rparr>) \<and>
   terminal (snd (Clay_Termbox_SetMeasureText (spec_vendored tb_init clay_init mt) w)) =
     terminal w \<and>
   layout_context (snd (Clay_Termbox_SetMeasureText (spec_vendored tb_init clay_init mt) w)) =
     layout_context w \<and>
   snd (Clay_Termbox_SetMeasureText V s) =
     snd (Clay_SetMeasureTextFunction V (Ptr (Clay_Termbox_MeasureText V)) NULL s)"
  by (simp add: Clay_Termbox_SetMeasureText_def spec_vendored_def)

text \<open>
  Claim C6. \<^verbatim>\<open>Clay_Termbox_Initialize_With_MeasureText\<close> registers no measurement
  callback, whatever its name says. On the libraries' state as the spec describes it, the
  callback pointer and its context are after the call what they were before it, whether
  the call returns or fails; over any vendored code its calls include no
  \<^verbatim>\<open>Clay_SetMeasureTextFunction\<close>. Of the two functions of the file,
  \<^verbatim>\<open>Clay_Termbox_SetMeasureText\<close> is the one that sets the pointer.
\<close>

theorem Initialize_leaves_callback:
  "measure_callback
     (snd (Clay_Termbox_Initialize_With_MeasureText (spec_vendored tb_init clay_init mt)
        cm bm bc im tr w)) = measure_callback w \<and>
   measure_context
     (snd (Clay_Termbox_Initialize_With_MeasureText (spec_vendored tb_init clay_init mt)
        cm bm bc im tr w)) = measure_context w \<and>
   user_contexts
     (snd (snd (Clay_Termbox_Initialize_With_MeasureText (logged V) cm bm bc im tr (s, [])))) =
     [] \<and>
   measure_callback (snd (Clay_Termbox_SetMeasureText (spec_vendored tb_init clay_init mt) w)) =
     Ptr mt"
  by (simp add: Clay_Termbox_Initialize_With_MeasureText_def Clay_Termbox_SetMeasureText_def
      spec_vendored_def logged_def split: prod.split)

text \<open>
  Claim C9. \<^verbatim>\<open>Clay_Termbox_SetMeasureText\<close> always passes \<^verbatim>\<open>NULL\<close> as the user context:
  over any vendored code and from any state, the one registration it makes carries the
  null pointer, and the function has no parameter a caller could supply data through.
  On the layout engine as the spec describes it, the context stored is null and a
  measurement calls \<^verbatim>\<open>Clay_Termbox_MeasureText\<close> with the null context.
\<close>

theorem SetMeasureText_null_context:
  "user_contexts (snd (snd (Clay_Termbox_SetMeasureText (logged V) (s, [])))) = [NULL] \<and>
   measure_context (snd (Clay_Termbox_SetMeasureText (spec_vendored tb_init clay_init mt) w)) =
     NULL \<and>
   measure_text (snd (Clay_Termbox_SetMeasureText (spec_vendored tb_init clay_init mt) w)) txt =
     Some (mt txt NULL)"
  by (simp add: Clay_Termbox_SetMeasureText_def logged_def spec_vendored_def measure_text_def
      split: prod.split)

text \<open>
  Claim C10. \<^verbatim>\<open>Clay_Termbox_SetMeasureText\<close> is idempotent on the libraries' state as
  the spec describes it: from any state, calling it twice in succession gives the
  outcome and the state that calling it once gives, each call writing the same pair
  (\<^verbatim>\<open>Clay_Termbox_MeasureText\<close>, \<^verbatim>\<open>NULL\<close>).
\<close>

theorem SetMeasureText_idempotent:
  "and_then (Clay_Termbox_SetMeasureText (spec_vendored tb_init clay_init mt))
     (Clay_Termbox_SetMeasureText (spec_vendored tb_init clay_init mt)) w =
   Clay_Termbox_SetMeasureText (spec_vendored tb_init clay_init mt) w \<and>
   snd (Clay_Termbox_SetMeasureText (spec_vendored tb_init clay_init mt)
     (snd (Clay_Termbox_SetMeasureText (spec_vendored tb_init clay_init mt) w))) =
   snd (Clay_Termbox_SetMeasureText (spec_vendored tb_init clay_init mt) w)"
  by (simp add: and_then_def Clay_Termbox_SetMeasureText_def spec_vendored_def)

section \<open>The startup order\<close>

text \<open>
  Claim C5. In a startup run as the spec documents it, over any vendored code, the
  calls made are exactly: terminal-backend init; then, when it has returned, the layout
  engine's initialisation; then, when that has returned, the measurement-callback
  registration, made in the state the layout engine's initialisation left. A run whose
  first two steps return makes all three calls, in this order, and ends as the
  registration ends; a run never makes the registration before the layout engine's
  initialisation. Neither wrapper calls the layout engine's initialisation itself.
\<close>

theorem startup_order:
  "prefix (snd (snd (startup (logged V) cm bm bc im tr (s, []))))
     [Call_Clay_Termbox_Initialize cm bm bc im tr, Call_Clay_Initialize,
      Call_Clay_SetMeasureTextFunction (Ptr (Clay_Termbox_MeasureText V)) NULL] \<and>
   snd (snd (startup (logged V) cm bm bc im tr (s, []))) \<noteq> [] \<and>
   Call_Clay_Initialize \<notin>
     set (snd (snd
       (Clay_Termbox_Initialize_With_MeasureText (logged V) cm bm bc im tr (s, [])))) \<and>
   Call_Clay_Initialize \<notin> set (snd (snd (Clay_Termbox_SetMeasureText (logged V) (s, [])))) \<and>
   snd (snd (startup (logged V) cm bm bc im tr (s, []))) =
     Call_Clay_Termbox_Initialize cm bm bc im tr #
     (if fst (Clay_Termbox_Initialize_With_MeasureText V cm bm bc im tr s) = Inr ()
      then Call_Clay_Initialize #
        (if fst (Clay_Initialize V
                   (snd (Clay_Termbox_Initialize_With_MeasureText V cm bm bc im tr s))) = Inr ()
         then [Call_Clay_SetMeasureTextFunction (Ptr (Clay_Termbox_MeasureText V)) NULL]
         else [])
      else []) \<and>
   (Clay_Termbox_Initialize_With_MeasureText V cm bm bc im tr s = (Inr (), s1) \<and>
    Clay_Initialize V s1 = (Inr (), s2) \<longrightarrow>
      startup (logged V) cm bm bc im tr (s, []) =
        (fst (Clay_Termbox_SetMeasureText V s2), snd (Clay_Termbox_SetMeasureText V s2),
         [Call_Clay_Termbox_Initialize cm bm bc im tr, Call_Clay_Initialize,
          Call_Clay_SetMeasureTextFunction (Ptr (Clay_Termbox_MeasureText V)) NULL]))"
  by (auto simp add: startup_def and_then_def Clay_Termbox_Initialize_With_MeasureText_def
      Clay_Termbox_SetMeasureText_def logged_def split: prod.split sum.split)

text \<open>
  An instance: over \<open>counter_vendored\<close> from state 1 both initialisations return, and
  the run makes the three calls in the documented order.
\<close>

theorem startup_order_witness:
  "Clay_Termbox_Initialize_With_MeasureText counter_vendored 1 2 3 4 True 1 = (Inr (), 2) \<and>
   Clay_Initialize counter_vendored 2 = (Inr (), 3) \<and>
   startup (logged counter_vendored) 1 2 3 4 True (1, []) =
     (Inr (), 4,
      [Call_Clay_Termbox_Initialize 1 2 3 4 True, Call_Clay_Initialize,
       Call_Clay_SetMeasureTextFunction (Ptr 7) NULL])"
  using startup_order [of counter_vendored 1 2 3 4 True 1 2 3]
  by (simp add: counter_vendored_def Clay_Termbox_Initialize_With_MeasureText_def
      Clay_Termbox_SetMeasureText_def)

text \<open>
  Claim C8. A run performs the documented sequence when each step is reached: terminal
  init returns, then the layout engine's initialisation returns, then the registration
  is made. For every such run, on the libraries' state as the spec describes it, the
  whole sequence succeeds; afterwards the measurement callback is
  \<^verbatim>\<open>Clay_Termbox_MeasureText\<close>, not null, and measuring a text yields a result instead
  of finding no callback.
\<close>

theorem startup_registers_callback:
  assumes "Clay_Termbox_Initialize_With_MeasureText (spec_vendored tb_init clay_init mt)
             cm bm bc im tr w = (Inr (), w1)"
    and "Clay_Initialize (spec_vendored tb_init clay_init mt) w1 = (Inr (), w2)"
  shows "startup (spec_vendored tb_init clay_init mt) cm bm bc im tr w =
           (Inr (), w2\<lparr>measure_callback := Ptr mt, measure_context := NULL\<rparr>) \<and>
         measure_callback (snd (startup (spec_vendored tb_init clay_init mt) cm bm bc im tr w))
           \<noteq> NULL \<and>
         measure_text (snd (startup (spec_vendored tb_init clay_init mt) cm bm bc im tr w)) txt
           = Some (mt txt NULL)"
  using assms
  by (simp add: startup_def and_then_def Clay_Termbox_SetMeasureText_def spec_vendored_def
      measure_text_def)

text \<open>
  An instance: from \<open>fresh_world\<close>, over \<open>ready_vendored\<close>, both initialisations return
  and the startup leaves the length function registered.
\<close>

theorem startup_registers_callback_witness:
  "Clay_Termbox_Initialize_With_MeasureText ready_vendored 1 2 3 4 True fresh_world =
     (Inr (), fresh_world\<lparr>terminal := 1\<rparr>) \<and>
   Clay_Initialize ready_vendored (fresh_world\<lparr>terminal := 1\<rparr>) =
     (Inr (), fresh_world\<lparr>terminal := 1, layout_context := True\<rparr>) \<and>
   startup ready_vendored 1 2 3 4 True fresh_world =
     (Inr (), \<lparr>terminal = 1, layout_context = True,
        measure_callback = Ptr (\<lambda>txt u. length txt), measure_context = NULL\<rparr>) \<and>
   measure_callback (snd (startup ready_vendored 1 2 3 4 True fresh_world)) \<noteq> NULL \<and>
   measure_text (snd (startup ready_vendored 1 2 3 4 True fresh_world)) ''abc'' = Some 3"
proof -
  have a: "Clay_Termbox_Initialize_With_MeasureText
             (spec_vendored (\<lambda>cm bm bc im tr t. (Inr (), Suc t))
                (\<lambda>w. (Inr (), w\<lparr>layout_context := True\<rparr>)) (\<lambda>txt u. length txt))
             1 (2::nat) (3::nat) (4::nat) True fresh_world =
           ((Inr ()::string + unit), fresh_world\<lparr>terminal := 1\<rparr>)"
    by (simp add: Clay_Termbox_Initialize_With_MeasureText_def spec_vendored_def
        fresh_world_def)
  have b: "Clay_Initialize
             (spec_vendored
                (\<lambda>cm (bm::nat) (bc::nat) (im::nat) tr t. ((Inr ()::string + unit), Suc t))
                (\<lambda>w. (Inr (), w\<lparr>layout_context := True\<rparr>)) (\<lambda>txt u. length txt))
             (fresh_world\<lparr>terminal := 1\<rparr>) =
           (Inr (), fresh_world\<lparr>terminal := 1, layout_context := True\<rparr>)"
    by (simp add: spec_vendored_def)
  show ?thesis
    using a b startup_registers_callback [OF a b, of "''abc''"]
    by (simp add: ready_vendored_def fresh_world_def measure_text_def)
qed

section \<open>The build-time configuration\<close>

text \<open>
  Claim C7. The translation unit defines \<^verbatim>\<open>TB_OPT_ATTR_W\<close> as \<^verbatim>\<open>32\<close> before it
  includes the terminal library: the definition is the directive just before the
  inclusion of \<^verbatim>\<open>../termbox2/termbox2.h\<close>, and whatever the macros at the start and
  whatever the files included earlier do, the library is compiled with
  \<^verbatim>\<open>TB_OPT_ATTR_W\<close> standing for \<^verbatim>\<open>32\<close>, the attribute width the source's comment
  requires for truecolor.
\<close>

theorem translation_unit_attr_width:
  "map_option (\<lambda>m'. m' ''TB_OPT_ATTR_W'')
     (map_of (inclusions hdr m translation_unit) ''../termbox2/termbox2.h'') =
     Some (Some ''32'') \<and>
   translation_unit ! 3 = Define ''TB_OPT_ATTR_W'' ''32'' \<and>
   translation_unit ! 4 = Include ''../termbox2/termbox2.h''"
  by (simp add: translation_unit_def)
end
